theory Spec2Isabelle
  imports Complex_Main "HOL-Library.Word" "HOL-Library.Sublist"
begin

section \<open>Dynamic values of the argument bag\<close>

text \<open>
  \<open>r.Params.Arguments\<close> is a Go \<open>map[string]interface{}\<close>. The values it holds after
  JSON decoding are strings, \<open>float64\<close> numbers, booleans, \<open>[]interface{}\<close> arrays,
  \<open>map[string]interface{}\<close> objects and \<open>nil\<close>; \<open>optionalStringArrayParam\<close> also
  accepts a native \<open>[]string\<close>.

  A \<open>float64\<close> is a finite value, a negative zero, an infinity or a NaN. The finite
  values are modelled by rationals, which cover every finite \<open>float64\<close>.
\<close>

datatype float64 = Fin rat | NegZero | PosInf | NegInf | NaN

datatype dyn_value =
    VString string
  | VNumber float64
  | VBool bool
  | VStrings "string list"
  | VArray "dyn_value list"
  | VObject "(string \<times> dyn_value) list"
  | VNil

type_synonym arguments = "string \<rightharpoonup> dyn_value"

text \<open>Go's \<open>==\<close> on \<open>float64\<close>: a NaN equals nothing, and the two zeros are equal.\<close>

fun float64_eq :: "float64 \<Rightarrow> float64 \<Rightarrow> bool" where
  "float64_eq (Fin a) (Fin b) = (a = b)"
| "float64_eq (Fin a) NegZero = (a = 0)"
| "float64_eq NegZero (Fin b) = (b = 0)"
| "float64_eq NegZero NegZero = True"
| "float64_eq PosInf PosInf = True"
| "float64_eq NegInf NegInf = True"
| "float64_eq _ _ = False"

text \<open>The name that the verb \<open>%T\<close> of \<open>fmt\<close> prints for a value.\<close>

fun type_of :: "dyn_value \<Rightarrow> string" where
  "type_of (VString _) = ''string''"
| "type_of (VNumber _) = ''float64''"
| "type_of (VBool _) = ''bool''"
| "type_of (VStrings _) = ''[]string''"
| "type_of (VArray _) = ''[]interface {}''"
| "type_of (VObject _) = ''map[string]interface {}''"
| "type_of VNil = ''<nil>''"

section \<open>Type parameters\<close>

text \<open>
  A type argument \<open>T\<close> of the generic accessors is given by what the accessors use of
  it: the type assertion \<open>x.(T)\<close>, the zero value \<open>var zero T\<close>, the comparison
  \<open>==\<close> on \<open>T\<close>, and the name \<open>%T\<close> prints.
\<close>

record 'a go_type =
  type_assert :: "dyn_value \<Rightarrow> 'a option"
  zero_value :: 'a
  equals :: "'a \<Rightarrow> 'a \<Rightarrow> bool"
  type_name :: string

fun assert_string :: "dyn_value \<Rightarrow> string option" where
  "assert_string (VString s) = Some s"
| "assert_string _ = None"

fun assert_float64 :: "dyn_value \<Rightarrow> float64 option" where
  "assert_float64 (VNumber v) = Some v"
| "assert_float64 _ = None"

fun assert_bool :: "dyn_value \<Rightarrow> bool option" where
  "assert_bool (VBool b) = Some b"
| "assert_bool _ = None"

definition string_type :: "string go_type" where
  "string_type =
     \<lparr>type_assert = assert_string, zero_value = [], equals = (=), type_name = ''string''\<rparr>"

definition float64_type :: "float64 go_type" where
  "float64_type =
     \<lparr>type_assert = assert_float64, zero_value = Fin 0, equals = float64_eq,
      type_name = ''float64''\<rparr>"

definition bool_type :: "bool go_type" where
  "bool_type =
     \<lparr>type_assert = assert_bool, zero_value = False, equals = (=), type_name = ''bool''\<rparr>"

section \<open>Errors\<close>

text \<open>
  One constructor for each \<open>fmt.Errorf\<close> call of the accessors, holding the arguments
  of the format; \<open>message\<close> is the formatted text. A Go result \<open>(T, error)\<close> is a pair
  whose second component is \<open>None\<close> for \<open>nil\<close>.
\<close>

datatype error =
    MissingRequired string
  | NotOfType string string
  | NotOfTypeIs string string string
  | ElementNotString string string
  | NotCoercible string string

fun message :: "error \<Rightarrow> string" where
  "message (MissingRequired p) = ''missing required parameter: '' @ p"
| "message (NotOfType p t) = ''parameter '' @ p @ '' is not of type '' @ t"
| "message (NotOfTypeIs p t u) = ''parameter '' @ p @ '' is not of type '' @ t @ '', is '' @ u"
| "message (ElementNotString p u) = ''parameter '' @ p @ '' is not of type string, is '' @ u"
| "message (NotCoercible p u) =
     ''parameter '' @ p @ '' could not be coerced to []string, is '' @ u"

text \<open>The two kinds of the error taxonomy that the accessors raise.\<close>

datatype error_kind = MissingParameter | TypeMismatch

fun kind :: "error \<Rightarrow> error_kind" where
  "kind (MissingRequired _) = MissingParameter"
| "kind _ = TypeMismatch"

section \<open>The accessors\<close>

definition requiredParam :: "'a go_type \<Rightarrow> arguments \<Rightarrow> string \<Rightarrow> 'a \<times> error option" where
  "requiredParam T args p =
     (case args p of
        None \<Rightarrow> (zero_value T, Some (MissingRequired p))
      | Some x \<Rightarrow>
          (case type_assert T x of
             None \<Rightarrow> (zero_value T, Some (NotOfType p (type_name T)))
           | Some v \<Rightarrow>
               if equals T v (zero_value T) then (zero_value T, Some (MissingRequired p))
               else (v, None)))"

definition optionalParam :: "'a go_type \<Rightarrow> arguments \<Rightarrow> string \<Rightarrow> 'a \<times> error option" where
  "optionalParam T args p =
     (case args p of
        None \<Rightarrow> (zero_value T, None)
      | Some x \<Rightarrow>
          (case type_assert T x of
             None \<Rightarrow> (zero_value T, Some (NotOfTypeIs p (type_name T) (type_of x)))
           | Some v \<Rightarrow> (v, None)))"

text \<open>
  The conversion \<open>int(v)\<close> of a \<open>float64\<close> discards the fraction (truncation towards
  zero). Go's \<open>int\<close> has 32 or 64 bits: it is a word of any length \<open>'w\<close> here. When
  \<open>int\<close> cannot represent the truncated value, or there is none (an infinity, a NaN),
  the conversion succeeds with an implementation-dependent value; the parameter \<open>impl\<close>
  gives that value.
\<close>

definition trunc :: "rat \<Rightarrow> int" where
  "trunc q = (if 0 \<le> q then \<lfloor>q\<rfloor> else \<lceil>q\<rceil>)"

fun float64_trunc :: "float64 \<Rightarrow> int option" where
  "float64_trunc (Fin q) = Some (trunc q)"
| "float64_trunc NegZero = Some 0"
| "float64_trunc _ = None"

definition representable :: "'w::len itself \<Rightarrow> int \<Rightarrow> bool" where
  "representable w i = (- (2 ^ (LENGTH('w) - 1)) \<le> i \<and> i < 2 ^ (LENGTH('w) - 1))"

definition int_of_float64 :: "(float64 \<Rightarrow> 'w word) \<Rightarrow> float64 \<Rightarrow> 'w::len word" where
  "int_of_float64 impl v =
     (case float64_trunc v of
        None \<Rightarrow> impl v
      | Some i \<Rightarrow> if representable TYPE('w) i then word_of_int i else impl v)"

definition requiredInt ::
    "(float64 \<Rightarrow> 'w word) \<Rightarrow> arguments \<Rightarrow> string \<Rightarrow> 'w::len word \<times> error option" where
  "requiredInt impl args p =
     (case requiredParam float64_type args p of
        (v, Some err) \<Rightarrow> (0, Some err)
      | (v, None) \<Rightarrow> (int_of_float64 impl v, None))"

definition optionalIntParam ::
    "(float64 \<Rightarrow> 'w word) \<Rightarrow> arguments \<Rightarrow> string \<Rightarrow> 'w::len word \<times> error option" where
  "optionalIntParam impl args p =
     (case optionalParam float64_type args p of
        (v, Some err) \<Rightarrow> (0, Some err)
      | (v, None) \<Rightarrow> (int_of_float64 impl v, None))"

definition optionalIntParamWithDefault ::
    "(float64 \<Rightarrow> 'w word) \<Rightarrow> arguments \<Rightarrow> string \<Rightarrow> 'w word
       \<Rightarrow> 'w::len word \<times> error option" where
  "optionalIntParamWithDefault impl args p d =
     (case optionalIntParam impl args p of
        (v, Some err) \<Rightarrow> (0, Some err)
      | (v, None) \<Rightarrow> if v = 0 then (d, None) else (v, None))"

text \<open>
  The loop of \<open>optionalStringArrayParam\<close> over a \<open>[]interface{}\<close>: \<open>vs\<close> are the
  elements still to visit, \<open>i\<close> the index of the first of them, \<open>strSlice\<close> the slice
  allocated with the length of the whole array.
\<close>

fun string_elements ::
    "string \<Rightarrow> dyn_value list \<Rightarrow> nat \<Rightarrow> string list \<Rightarrow> string list \<times> error option" where
  "string_elements p [] i strSlice = (strSlice, None)"
| "string_elements p (v # vs) i strSlice =
     (case assert_string v of
        None \<Rightarrow> ([], Some (ElementNotString p (type_of v)))
      | Some s \<Rightarrow> string_elements p vs (Suc i) (strSlice[i := s]))"

definition optionalStringArrayParam :: "arguments \<Rightarrow> string \<Rightarrow> string list \<times> error option" where
  "optionalStringArrayParam args p =
     (case args p of
        None \<Rightarrow> ([], None)
      | Some (VStrings v) \<Rightarrow> (v, None)
      | Some (VArray v) \<Rightarrow> string_elements p v 0 (replicate (length v) [])
      | Some x \<Rightarrow> ([], Some (NotCoercible p (type_of x))))"

section \<open>The tool lists of the configuration\<close>

text \<open>
  \<open>strings.Split(s, ",")\<close>: the substrings between the separators; one more than there
  are separators.
\<close>

fun Split :: "string \<Rightarrow> char \<Rightarrow> string list" where
  "Split [] sep = [[]]"
| "Split (c # cs) sep =
     (if c = sep then [] # Split cs sep
      else (case Split cs sep of [] \<Rightarrow> [[c]] | x # xs \<Rightarrow> (c # x) # xs))"

text \<open>
  \<open>strings.TrimSpace\<close> removes the leading and trailing white space, as Unicode defines
  it. A Go string is a sequence of bytes, read as UTF-8: \<open>white_space\<close> lists the
  encodings of the code points with the property White_Space (U+0009 to U+000D, U+0020,
  U+0085, U+00A0, U+1680, U+2000 to U+200A, U+2028, U+2029, U+202F, U+205F, U+3000).
\<close>

definition white_space :: "string list" where
  "white_space =
     [[CHR 0x09], [CHR 0x0A], [CHR 0x0B], [CHR 0x0C], [CHR 0x0D], [CHR 0x20],
      [CHR 0xC2, CHR 0x85], [CHR 0xC2, CHR 0xA0],
      [CHR 0xE1, CHR 0x9A, CHR 0x80],
      [CHR 0xE2, CHR 0x80, CHR 0x80], [CHR 0xE2, CHR 0x80, CHR 0x81],
      [CHR 0xE2, CHR 0x80, CHR 0x82], [CHR 0xE2, CHR 0x80, CHR 0x83],
      [CHR 0xE2, CHR 0x80, CHR 0x84], [CHR 0xE2, CHR 0x80, CHR 0x85],
      [CHR 0xE2, CHR 0x80, CHR 0x86], [CHR 0xE2, CHR 0x80, CHR 0x87],
      [CHR 0xE2, CHR 0x80, CHR 0x88], [CHR 0xE2, CHR 0x80, CHR 0x89],
      [CHR 0xE2, CHR 0x80, CHR 0x8A],
      [CHR 0xE2, CHR 0x80, CHR 0xA8], [CHR 0xE2, CHR 0x80, CHR 0xA9],
      [CHR 0xE2, CHR 0x80, CHR 0xAF], [CHR 0xE2, CHR 0x81, CHR 0x9F],
      [CHR 0xE3, CHR 0x80, CHR 0x80]]"

text \<open>
  \<open>trim space s\<close> removes from the front of \<open>s\<close> every sequence of one, two or three
  bytes that \<open>space\<close> accepts.
\<close>

fun trim :: "(string \<Rightarrow> bool) \<Rightarrow> string \<Rightarrow> string" where
  "trim space [] = []"
| "trim space [a] = (if space [a] then [] else [a])"
| "trim space [a, b] =
     (if space [a] then trim space [b] else if space [a, b] then [] else [a, b])"
| "trim space (a # b # c # s) =
     (if space [a] then trim space (b # c # s)
      else if space [a, b] then trim space (c # s)
      else if space [a, b, c] then trim space s
      else a # b # c # s)"

definition TrimSpace :: "string \<Rightarrow> string" where
  "TrimSpace s =
     rev (trim (\<lambda>w. rev w \<in> set white_space) (rev (trim (\<lambda>w. w \<in> set white_space) s)))"

text \<open>
  \<open>NewServer\<close> builds \<open>excludeList\<close> and \<open>includeList\<close>, both of type
  \<open>map[string]bool\<close>, with the same code: \<open>tool_list\<close> is that code.
\<close>

definition tool_list :: "string \<Rightarrow> (string \<rightharpoonup> bool)" where
  "tool_list tools =
     (if tools \<noteq> [] then
        fold (\<lambda>tool list. list(TrimSpace tool \<mapsto> True)) (Split tools CHR '','') Map.empty
      else Map.empty)"

text \<open>Indexing a \<open>map[string]bool\<close>: a missing key gives \<open>false\<close>.\<close>

definition index :: "(string \<rightharpoonup> bool) \<Rightarrow> string \<Rightarrow> bool" where
  "index list k = (case list k of None \<Rightarrow> False | Some b \<Rightarrow> b)"

definition shouldIncludeTool ::
    "(string \<rightharpoonup> bool) \<Rightarrow> (string \<rightharpoonup> bool) \<Rightarrow> string \<Rightarrow> bool" where
  "shouldIncludeTool includeList excludeList toolName =
     (if dom includeList \<noteq> {} then index includeList toolName
      else \<not> index excludeList toolName)"

section \<open>The server and its catalog\<close>

text \<open>
  The tools and resource templates that \<open>NewServer\<close> constructs, named after their
  constructors. The server is what \<open>NewServer\<close> does to it: the sequence of the
  \<open>AddResourceTemplate\<close> calls and the sequence of the \<open>AddTool\<close> calls, in the order
  of the calls. The name of a tool (\<open>tool.Name\<close>) is set by its constructor, and only
  \<open>getMe\<close> is in this file: the names are the parameter \<open>name\<close> of \<open>NewServer\<close>.
\<close>

datatype tool =
    GetIssue | SearchIssues | ListIssues
  | CreateIssue | AddIssueComment | UpdateIssue
  | GetPullRequest | ListPullRequests | GetPullRequestFiles | GetPullRequestStatus
  | GetPullRequestComments | GetPullRequestReviews
  | MergePullRequest | UpdatePullRequestBranch | CreatePullRequestReview | CreatePullRequest
  | SearchRepositories | GetFileContents | ListCommits
  | CreateOrUpdateFile | CreateRepository | ForkRepository | CreateBranch | PushFiles
  | SearchCode | SearchUsers
  | GetMe
  | GetCodeScanningAlert | ListCodeScanningAlerts

datatype resource_template =
    RepositoryResourceContent | RepositoryResourceBranchContent
  | RepositoryResourceCommitContent | RepositoryResourceTagContent
  | RepositoryResourcePrContent

record mcp_server =
  resource_templates :: "resource_template list"
  tools :: "tool list"

definition NewMCPServer :: mcp_server where
  "NewMCPServer = \<lparr>resource_templates = [], tools = []\<rparr>"

definition AddResourceTemplate :: "resource_template \<Rightarrow> mcp_server \<Rightarrow> mcp_server" where
  "AddResourceTemplate r s = s\<lparr>resource_templates := resource_templates s @ [r]\<rparr>"

definition AddTool :: "tool \<Rightarrow> mcp_server \<Rightarrow> mcp_server" where
  "AddTool t s = s\<lparr>tools := tools s @ [t]\<rparr>"

definition addToolIfIncluded ::
    "(string \<rightharpoonup> bool) \<Rightarrow> (string \<rightharpoonup> bool) \<Rightarrow> (tool \<Rightarrow> string) \<Rightarrow> tool
       \<Rightarrow> mcp_server \<Rightarrow> mcp_server" where
  "addToolIfIncluded includeList excludeList name t s =
     (if shouldIncludeTool includeList excludeList (name t) then AddTool t s else s)"

definition NewServer :: "(tool \<Rightarrow> string) \<Rightarrow> bool \<Rightarrow> string \<Rightarrow> string \<Rightarrow> mcp_server" where
  "NewServer name readOnly excludeTools includeTools =
     (let s = NewMCPServer;
          excludeList = tool_list excludeTools;
          includeList = tool_list includeTools;
          add = addToolIfIncluded includeList excludeList name;
          s = AddResourceTemplate RepositoryResourceContent s;
          s = AddResourceTemplate RepositoryResourceBranchContent s;
          s = AddResourceTemplate RepositoryResourceCommitContent s;
          s = AddResourceTemplate RepositoryResourceTagContent s;
          s = AddResourceTemplate RepositoryResourcePrContent s;
          s = add GetIssue s;
          s = add SearchIssues s;
          s = add ListIssues s;
          s = (if \<not> readOnly then
                 let s = add CreateIssue s;
                     s = add AddIssueComment s;
                     s = add UpdateIssue s
                 in s
               else s);
          s = add GetPullRequest s;
          s = add ListPullRequests s;
          s = add GetPullRequestFiles s;
          s = add GetPullRequestStatus s;
          s = add GetPullRequestComments s;
          s = add GetPullRequestReviews s;
          s = (if \<not> readOnly then
                 let s = add MergePullRequest s;
                     s = add UpdatePullRequestBranch s;
                     s = add CreatePullRequestReview s;
                     s = add CreatePullRequest s
                 in s
               else s);
          s = add SearchRepositories s;
          s = add GetFileContents s;
          s = add ListCommits s;
          s = (if \<not> readOnly then
                 let s = add CreateOrUpdateFile s;
                     s = add CreateRepository s;
                     s = add ForkRepository s;
                     s = add CreateBranch s;
                     s = add PushFiles s
                 in s
               else s);
          s = add SearchCode s;
          s = add SearchUsers s;
          s = add GetMe s;
          s = add GetCodeScanningAlert s;
          s = add ListCodeScanningAlerts s
      in s)"

text \<open>
  The catalog as \<open>NewServer\<close> declares it: every tool, in the order of the
  \<open>addToolIfIncluded\<close> calls in the text of \<open>NewServer\<close>. The mutating tools are those
  whose call stands under \<open>if !readOnly\<close>.
\<close>

definition declared :: "tool list" where
  "declared =
     [GetIssue, SearchIssues, ListIssues,
      CreateIssue, AddIssueComment, UpdateIssue,
      GetPullRequest, ListPullRequests, GetPullRequestFiles, GetPullRequestStatus,
      GetPullRequestComments, GetPullRequestReviews,
      MergePullRequest, UpdatePullRequestBranch, CreatePullRequestReview, CreatePullRequest,
      SearchRepositories, GetFileContents, ListCommits,
      CreateOrUpdateFile, CreateRepository, ForkRepository, CreateBranch, PushFiles,
      SearchCode, SearchUsers,
      GetMe,
      GetCodeScanningAlert, ListCodeScanningAlerts]"

definition mutating :: "tool \<Rightarrow> bool" where
  "mutating t =
     (t \<in> {CreateIssue, AddIssueComment, UpdateIssue,
            MergePullRequest, UpdatePullRequestBranch, CreatePullRequestReview,
            CreatePullRequest,
            CreateOrUpdateFile, CreateRepository, ForkRepository, CreateBranch, PushFiles})"

text \<open>
  The names of the tools as their constructors set them; \<open>get_me\<close> is the one this file
  shows, the others follow the same pattern.
\<close>

fun tool_name :: "tool \<Rightarrow> string" where
  "tool_name GetIssue = ''get_issue''"
| "tool_name SearchIssues = ''search_issues''"
| "tool_name ListIssues = ''list_issues''"
| "tool_name CreateIssue = ''create_issue''"
| "tool_name AddIssueComment = ''add_issue_comment''"
| "tool_name UpdateIssue = ''update_issue''"
| "tool_name GetPullRequest = ''get_pull_request''"
| "tool_name ListPullRequests = ''list_pull_requests''"
| "tool_name GetPullRequestFiles = ''get_pull_request_files''"
| "tool_name GetPullRequestStatus = ''get_pull_request_status''"
| "tool_name GetPullRequestComments = ''get_pull_request_comments''"
| "tool_name GetPullRequestReviews = ''get_pull_request_reviews''"
| "tool_name MergePullRequest = ''merge_pull_request''"
| "tool_name UpdatePullRequestBranch = ''update_pull_request_branch''"
| "tool_name CreatePullRequestReview = ''create_pull_request_review''"
| "tool_name CreatePullRequest = ''create_pull_request''"
| "tool_name SearchRepositories = ''search_repositories''"
| "tool_name GetFileContents = ''get_file_contents''"
| "tool_name ListCommits = ''list_commits''"
| "tool_name CreateOrUpdateFile = ''create_or_update_file''"
| "tool_name CreateRepository = ''create_repository''"
| "tool_name ForkRepository = ''fork_repository''"
| "tool_name CreateBranch = ''create_branch''"
| "tool_name PushFiles = ''push_files''"
| "tool_name SearchCode = ''search_code''"
| "tool_name SearchUsers = ''search_users''"
| "tool_name GetMe = ''get_me''"
| "tool_name GetCodeScanningAlert = ''get_code_scanning_alert''"
| "tool_name ListCodeScanningAlerts = ''list_code_scanning_alerts''"

text \<open>
  One admissible \<open>impl\<close> on 64 bits: every conversion that \<open>int\<close> cannot represent
  gives the least \<open>int\<close>, as the conversion instruction of amd64 does.
\<close>

definition indefinite :: "float64 \<Rightarrow> 64 word" where
  "indefinite v = 0x8000000000000000"

section \<open>Lemmas\<close>

subsection \<open>Truncation and conversion\<close>

lemma trunc_zero: "trunc 0 = 0"
  by (simp add: trunc_def)

lemma trunc_one: "trunc 1 = 1"
  by (simp add: trunc_def)

lemma trunc_minus: "trunc (- q) = - trunc q"
  by (auto simp: trunc_def ceiling_def)

lemma trunc_of_int: "trunc (of_int k) = k"
  by (simp add: trunc_def)

lemma trunc_numeral: "trunc (numeral a) = numeral a"
  using trunc_of_int [of "numeral a"] by simp

lemma trunc_divide_numeral: "trunc (numeral a / numeral b) = numeral a div numeral b"
  using floor_divide_of_int_eq [of "numeral a" "numeral b", where ?'a = rat]
  by (simp add: trunc_def)

lemma trunc_one_divide_numeral: "trunc (1 / numeral b) = 1 div numeral b"
  using floor_divide_of_int_eq [of 1 "numeral b", where ?'a = rat]
  by (simp add: trunc_def)

lemmas trunc_simps =
  trunc_zero trunc_one trunc_minus trunc_of_int trunc_numeral trunc_divide_numeral trunc_one_divide_numeral

lemma sint_representable:
  "representable TYPE('w::len) i \<Longrightarrow> sint (word_of_int i :: 'w word) = i"
  by (simp add: representable_def sint_sbintrunc' signed_take_bit_int_eq_self)

lemma word_of_int_representable_0:
  assumes "representable TYPE('w::len) i"
  shows "(word_of_int i :: 'w word) = 0 \<longleftrightarrow> i = 0"
proof
  assume "(word_of_int i :: 'w word) = 0"
  then have "sint (word_of_int i :: 'w word) = 0" by simp
  with assms show "i = 0" by (simp add: sint_representable)
qed simp

lemma representable_0: "representable TYPE('w::len) 0"
  by (simp add: representable_def)

lemma representable_64:
  "representable TYPE(64) i \<longleftrightarrow> - 9223372036854775808 \<le> i \<and> i < 9223372036854775808"
  by (simp add: representable_def)

lemma int_of_float64_representable:
  "float64_trunc v = Some i \<Longrightarrow> representable TYPE('w::len) i \<Longrightarrow>
     int_of_float64 impl v = (word_of_int i :: 'w word)"
  by (simp add: int_of_float64_def)

lemma int_of_float64_zero: "float64_trunc v = Some 0 \<Longrightarrow> int_of_float64 impl v = 0"
  by (simp add: int_of_float64_def representable_0)

subsection \<open>The accessors of numbers\<close>

lemma requiredParam_float64:
  "requiredParam float64_type args p =
     (case args p of
        None \<Rightarrow> (Fin 0, Some (MissingRequired p))
      | Some (VNumber v) \<Rightarrow>
          if float64_eq v (Fin 0) then (Fin 0, Some (MissingRequired p)) else (v, None)
      | Some x \<Rightarrow> (Fin 0, Some (NotOfType p ''float64'')))"
  by (simp add: requiredParam_def float64_type_def split: option.split dyn_value.split)

lemma optionalParam_float64:
  "optionalParam float64_type args p =
     (case args p of
        None \<Rightarrow> (Fin 0, None)
      | Some (VNumber v) \<Rightarrow> (v, None)
      | Some x \<Rightarrow> (Fin 0, Some (NotOfTypeIs p ''float64'' (type_of x))))"
  by (simp add: optionalParam_def float64_type_def split: option.split dyn_value.split)

lemma requiredInt_cases:
  "requiredInt impl args p =
     (case args p of
        None \<Rightarrow> (0, Some (MissingRequired p))
      | Some (VNumber v) \<Rightarrow>
          if float64_eq v (Fin 0) then (0, Some (MissingRequired p))
          else (int_of_float64 impl v, None)
      | Some x \<Rightarrow> (0, Some (NotOfType p ''float64'')))"
  by (simp add: requiredInt_def requiredParam_float64 split: option.split dyn_value.split)

lemma optionalIntParam_cases:
  "optionalIntParam impl args p =
     (case args p of
        None \<Rightarrow> (0, None)
      | Some (VNumber v) \<Rightarrow> (int_of_float64 impl v, None)
      | Some x \<Rightarrow> (0, Some (NotOfTypeIs p ''float64'' (type_of x))))"
  by (simp add: optionalIntParam_def optionalParam_float64 int_of_float64_zero trunc_simps
      split: option.split dyn_value.split)

lemma requiredInt_bounded:
  "sint (fst (requiredInt impl args p :: 'w::len word \<times> error option)) < 2 ^ (LENGTH('w) - 1)"
  by (rule sint_lt)

subsection \<open>The loop over the elements of an array\<close>

lemma string_elements_strings:
  "i + length xs \<le> length strSlice \<Longrightarrow>
     string_elements p (map VString xs) i strSlice =
       (take i strSlice @ xs @ drop (i + length xs) strSlice, None)"
proof (induction xs arbitrary: i strSlice)
  case Nil
  then show ?case by simp
next
  case (Cons x xs)
  then have i: "i < length strSlice" by simp
  from Cons.prems have "Suc i + length xs \<le> length (strSlice[i := x])" by simp
  then have "string_elements p (map VString xs) (Suc i) (strSlice[i := x]) =
      (take (Suc i) (strSlice[i := x]) @ xs @ drop (Suc i + length xs) (strSlice[i := x]), None)"
    by (rule Cons.IH)
  moreover from i have "take (Suc i) (strSlice[i := x]) = take i strSlice @ [x]"
    by (simp add: take_Suc_conv_app_nth)
  ultimately show ?case by simp
qed

lemma string_elements_first_other:
  "find (\<lambda>v. assert_string v = None) vs = Some v \<Longrightarrow>
     string_elements p vs i strSlice = ([], Some (ElementNotString p (type_of v)))"
  by (induction vs arbitrary: i strSlice) (auto split: option.splits if_splits)

lemma find_other:
  "v \<in> set vs \<Longrightarrow> assert_string v = None \<Longrightarrow>
     \<exists>u. find (\<lambda>v. assert_string v = None) vs = Some u"
  by (cases "find (\<lambda>v. assert_string v = None) vs") (auto simp: find_None_iff)

subsection \<open>The tool lists\<close>

lemma fold_upd_True:
  "fold (\<lambda>tool list. list(f tool \<mapsto> True)) xs m k =
     (if k \<in> f ` set xs then Some True else m k)"
  by (induction xs arbitrary: m) auto

lemma Split_not_Nil: "Split s sep \<noteq> []"
  by (induction s) (auto split: list.splits)

lemma tool_list_lookup:
  "tool_list s k =
     (if s \<noteq> [] \<and> k \<in> TrimSpace ` set (Split s CHR '','') then Some True else None)"
  by (simp add: tool_list_def fold_upd_True)

lemma index_tool_list: "index (tool_list s) k = (k \<in> dom (tool_list s))"
  by (auto simp: index_def tool_list_lookup dom_def)

lemma dom_tool_list:
  "dom (tool_list s) = (if s = [] then {} else TrimSpace ` set (Split s CHR '',''))"
  by (auto simp: tool_list_lookup dom_def)

lemma dom_tool_list_empty: "dom (tool_list s) = {} \<longleftrightarrow> s = []"
  using Split_not_Nil [of s "CHR '',''"] by (auto simp: dom_tool_list)

lemma shouldIncludeTool_dom:
  "shouldIncludeTool (tool_list includeTools) (tool_list excludeTools) toolName =
     (if dom (tool_list includeTools) \<noteq> {} then toolName \<in> dom (tool_list includeTools)
      else toolName \<notin> dom (tool_list excludeTools))"
  by (simp add: shouldIncludeTool_def index_tool_list)

subsection \<open>The calls of \<open>AddTool\<close> in \<open>NewServer\<close>\<close>

lemma tools_AddResourceTemplate: "tools (AddResourceTemplate r s) = tools s"
  by (simp add: AddResourceTemplate_def)

lemma tools_addToolIfIncluded:
  "tools (addToolIfIncluded il el nm t s) =
     tools s @ filter (\<lambda>t. shouldIncludeTool il el (nm t)) [t]"
  by (simp add: addToolIfIncluded_def AddTool_def)

lemma tools_NewMCPServer: "tools NewMCPServer = []"
  by (simp add: NewMCPServer_def)

lemma filter_Cons2: "filter P (x # y # ys) = filter P [x] @ filter P (y # ys)"
  by simp

lemma tools_NewServer_groups:
  "tools (NewServer nm ro ex inc) =
     filter (\<lambda>t. shouldIncludeTool (tool_list inc) (tool_list ex) (nm t))
       ([GetIssue, SearchIssues, ListIssues]
        @ (if \<not> ro then [CreateIssue, AddIssueComment, UpdateIssue] else [])
        @ [GetPullRequest, ListPullRequests, GetPullRequestFiles, GetPullRequestStatus,
           GetPullRequestComments, GetPullRequestReviews]
        @ (if \<not> ro then [MergePullRequest, UpdatePullRequestBranch, CreatePullRequestReview,
             CreatePullRequest] else [])
        @ [SearchRepositories, GetFileContents, ListCommits]
        @ (if \<not> ro then [CreateOrUpdateFile, CreateRepository, ForkRepository, CreateBranch,
             PushFiles] else [])
        @ [SearchCode, SearchUsers, GetMe, GetCodeScanningAlert, ListCodeScanningAlerts])"
proof (cases ro)
  case True
  then show ?thesis
    unfolding NewServer_def Let_def
    by (simp only: tools_addToolIfIncluded tools_AddResourceTemplate tools_NewMCPServer
        if_True if_False not_True_eq_False filter_append append_Nil append_Nil2 append_assoc
        filter_Cons2)
next
  case False
  then show ?thesis
    unfolding NewServer_def Let_def
    by (simp only: tools_addToolIfIncluded tools_AddResourceTemplate tools_NewMCPServer
        if_True if_False not_False_eq_True filter_append append_Nil append_Nil2 append_assoc
        filter_Cons2)
qed

lemma filter_declared:
  "filter (\<lambda>t. (mutating t \<longrightarrow> \<not> ro) \<and> P t) declared =
     filter P
       ([GetIssue, SearchIssues, ListIssues]
        @ (if \<not> ro then [CreateIssue, AddIssueComment, UpdateIssue] else [])
        @ [GetPullRequest, ListPullRequests, GetPullRequestFiles, GetPullRequestStatus,
           GetPullRequestComments, GetPullRequestReviews]
        @ (if \<not> ro then [MergePullRequest, UpdatePullRequestBranch, CreatePullRequestReview,
             CreatePullRequest] else [])
        @ [SearchRepositories, GetFileContents, ListCommits]
        @ (if \<not> ro then [CreateOrUpdateFile, CreateRepository, ForkRepository, CreateBranch,
             PushFiles] else [])
        @ [SearchCode, SearchUsers, GetMe, GetCodeScanningAlert, ListCodeScanningAlerts])"
proof -
  have "filter (\<lambda>t. (mutating t \<longrightarrow> \<not> ro) \<and> P t) declared =
        filter P (filter (\<lambda>t. mutating t \<longrightarrow> \<not> ro) declared)"
    by (simp add: conj_commute)
  also have "filter (\<lambda>t. mutating t \<longrightarrow> \<not> ro) declared =
       ([GetIssue, SearchIssues, ListIssues]
        @ (if \<not> ro then [CreateIssue, AddIssueComment, UpdateIssue] else [])
        @ [GetPullRequest, ListPullRequests, GetPullRequestFiles, GetPullRequestStatus,
           GetPullRequestComments, GetPullRequestReviews]
        @ (if \<not> ro then [MergePullRequest, UpdatePullRequestBranch, CreatePullRequestReview,
             CreatePullRequest] else [])
        @ [SearchRepositories, GetFileContents, ListCommits]
        @ (if \<not> ro then [CreateOrUpdateFile, CreateRepository, ForkRepository, CreateBranch,
             PushFiles] else [])
        @ [SearchCode, SearchUsers, GetMe, GetCodeScanningAlert, ListCodeScanningAlerts])"
    by (cases ro) (simp_all add: declared_def mutating_def)
  finally show ?thesis .
qed

lemma tools_NewServer:
  "tools (NewServer name readOnly excludeTools includeTools) =
     filter (\<lambda>t. (mutating t \<longrightarrow> \<not> readOnly) \<and>
                shouldIncludeTool (tool_list includeTools) (tool_list excludeTools) (name t))
       declared"
  by (simp only: tools_NewServer_groups filter_declared)

lemma mutating_declared: "mutating t \<Longrightarrow> t \<in> set declared"
  by (auto simp: mutating_def declared_def)

lemma distinct_declared: "distinct declared"
  by (simp add: declared_def)

section \<open>The claims\<close>

text \<open>
  C1. The include list is authoritative. When the include list is not empty,
  \<open>shouldIncludeTool\<close> answers whether the name is in it, whatever the exclude list
  holds; when it is empty, \<open>shouldIncludeTool\<close> answers whether the name is missing from
  the exclude list. With the include list \<open>a\<close> and the exclude list \<open>a,b\<close>, the tool
  \<open>a\<close> is exposed and \<open>b\<close> is not; with no include list and the exclude list \<open>b\<close>,
  \<open>a\<close> is exposed and \<open>b\<close> is not.
\<close>

theorem shouldIncludeTool_include_wins:
  "(dom (tool_list includeTools) \<noteq> {} \<longrightarrow>
      shouldIncludeTool (tool_list includeTools) excludeList toolName =
        (toolName \<in> dom (tool_list includeTools))) \<and>
   (dom (tool_list includeTools) = {} \<longrightarrow>
      shouldIncludeTool (tool_list includeTools) (tool_list excludeTools) toolName =
        (toolName \<notin> dom (tool_list excludeTools))) \<and>
   dom (tool_list ''a'') = {''a''} \<and> dom (tool_list ''a,b'') = {''a'', ''b''} \<and>
   dom (tool_list '''') = {} \<and> dom (tool_list ''b'') = {''b''} \<and>
   shouldIncludeTool (tool_list ''a'') (tool_list ''a,b'') ''a'' \<and>
   \<not> shouldIncludeTool (tool_list ''a'') (tool_list ''a,b'') ''b'' \<and>
   shouldIncludeTool (tool_list '''') (tool_list ''b'') ''a'' \<and>
   \<not> shouldIncludeTool (tool_list '''') (tool_list ''b'') ''b''"
  by (simp add: shouldIncludeTool_def index_tool_list dom_tool_list TrimSpace_def
      white_space_def insert_commute)

theorem shouldIncludeTool_include_wins_witness:
  "dom (tool_list ''get_me, get_issue'') \<noteq> {} \<and>
   shouldIncludeTool (tool_list ''get_me, get_issue'') (tool_list ''get_me'') ''get_me'' =
     (''get_me'' \<in> dom (tool_list ''get_me, get_issue'')) \<and>
   dom (tool_list '''') = {} \<and>
   shouldIncludeTool (tool_list '''') (tool_list ''get_me'') ''get_me'' =
     (''get_me'' \<notin> dom (tool_list ''get_me''))"
  using shouldIncludeTool_include_wins
      [of "''get_me, get_issue''" "tool_list ''get_me''" "''get_me''" "''get_me''"]
    shouldIncludeTool_include_wins [of "''''" "tool_list ''get_me''" "''get_me''" "''get_me''"]
  by (simp add: dom_tool_list)

text \<open>
  C2. \<open>requiredParam\<close> fails with a missing-parameter error when the name is absent,
  with a type error when the value is not of type \<open>T\<close>, with a missing-parameter error
  again when the value of type \<open>T\<close> equals the zero value of \<open>T\<close> (the empty string,
  the number zero, \<open>false\<close>), and returns the stored value otherwise.
\<close>

theorem requiredParam_checks:
  "(args p = None \<longrightarrow> requiredParam T args p = (zero_value T, Some (MissingRequired p))) \<and>
   (args p = Some x \<and> type_assert T x = None \<longrightarrow>
      requiredParam T args p = (zero_value T, Some (NotOfType p (type_name T)))) \<and>
   (args p = Some x \<and> type_assert T x = Some v \<and> equals T v (zero_value T) \<longrightarrow>
      requiredParam T args p = (zero_value T, Some (MissingRequired p))) \<and>
   (args p = Some x \<and> type_assert T x = Some v \<and> \<not> equals T v (zero_value T) \<longrightarrow>
      requiredParam T args p = (v, None)) \<and>
   kind (MissingRequired p) = MissingParameter \<and>
   kind (NotOfType p (type_name T)) = TypeMismatch \<and>
   requiredParam string_type args p =
     (case args p of
        None \<Rightarrow> ([], Some (MissingRequired p))
      | Some (VString s) \<Rightarrow> if s = [] then ([], Some (MissingRequired p)) else (s, None)
      | Some _ \<Rightarrow> ([], Some (NotOfType p ''string''))) \<and>
   requiredParam float64_type args p =
     (case args p of
        None \<Rightarrow> (Fin 0, Some (MissingRequired p))
      | Some (VNumber n) \<Rightarrow>
          if float64_eq n (Fin 0) then (Fin 0, Some (MissingRequired p)) else (n, None)
      | Some _ \<Rightarrow> (Fin 0, Some (NotOfType p ''float64''))) \<and>
   requiredParam bool_type args p =
     (case args p of
        None \<Rightarrow> (False, Some (MissingRequired p))
      | Some (VBool b) \<Rightarrow> if b then (True, None) else (False, Some (MissingRequired p))
      | Some _ \<Rightarrow> (False, Some (NotOfType p ''bool'')))"
  by (simp add: requiredParam_def string_type_def float64_type_def bool_type_def
      split: option.split dyn_value.split)

theorem requiredParam_checks_witness:
  "requiredParam string_type [''owner'' \<mapsto> VString ''octocat''] ''owner'' = (''octocat'', None) \<and>
   requiredParam string_type [''owner'' \<mapsto> VString ''''] ''owner'' =
     ('''', Some (MissingRequired ''owner'')) \<and>
   requiredParam string_type [''owner'' \<mapsto> VNumber (Fin 1)] ''owner'' =
     ('''', Some (NotOfType ''owner'' ''string'')) \<and>
   requiredParam string_type [''repo'' \<mapsto> VString ''x''] ''owner'' =
     ('''', Some (MissingRequired ''owner''))"
  using requiredParam_checks [of "[''owner'' \<mapsto> VString ''octocat'']" "''owner''" string_type
      "VString ''octocat''" "''octocat''"]
    requiredParam_checks [of "[''owner'' \<mapsto> VString '''']" "''owner''" string_type
      "VString ''''" "''''"]
    requiredParam_checks [of "[''owner'' \<mapsto> VNumber (Fin 1)]" "''owner''" string_type
      "VNumber (Fin 1)"]
    requiredParam_checks [of "[''repo'' \<mapsto> VString ''x'']" "''owner''" string_type]
  by (simp add: string_type_def)

text \<open>
  C3. A mutating tool is registered exactly when \<open>readOnly\<close> is false and
  \<open>shouldIncludeTool\<close> accepts its name; in read-only mode no mutating tool is in the
  catalog, whatever the include and exclude lists are. \<open>NewServer\<close> has no error
  result: a tool that fails a condition is left out and nothing else happens.
\<close>

theorem mutating_tools_gated:
  "(mutating t \<longrightarrow>
      (t \<in> set (tools (NewServer name readOnly excludeTools includeTools)) \<longleftrightarrow>
         \<not> readOnly \<and>
         shouldIncludeTool (tool_list includeTools) (tool_list excludeTools) (name t))) \<and>
   (\<forall>t \<in> set (tools (NewServer name True excludeTools includeTools)). \<not> mutating t)"
  using mutating_declared [of t] by (auto simp: tools_NewServer)

theorem mutating_tools_gated_witness:
  "mutating CreateIssue \<and>
   CreateIssue \<in> set (tools (NewServer tool_name False ''get_me'' '''')) \<and>
   CreateIssue \<notin> set (tools (NewServer tool_name True ''get_me'' '''')) \<and>
   CreateIssue \<notin> set (tools (NewServer tool_name False ''create_issue'' '''')) \<and>
   CreateIssue \<notin> set (tools (NewServer tool_name False '''' ''get_me'')) \<and>
   GetIssue \<in> set (tools (NewServer tool_name True ''get_me'' '''')) \<and>
   \<not> mutating GetIssue"
  using mutating_tools_gated [of CreateIssue tool_name False "''get_me''" "''''"]
    mutating_tools_gated [of CreateIssue tool_name True "''get_me''" "''''"]
    mutating_tools_gated [of CreateIssue tool_name False "''create_issue''" "''''"]
    mutating_tools_gated [of CreateIssue tool_name False "''''" "''get_me''"]
  by (simp add: mutating_def shouldIncludeTool_dom dom_tool_list TrimSpace_def white_space_def
      tools_NewServer declared_def)

text \<open>
  C4, as stated, fails: \<open>requiredInt\<close> does not return the truncated number when
  \<open>int\<close> cannot represent it. The number \<open>2 ^ 70\<close> is a \<open>float64\<close>, it is its own
  truncation, and the \<open>int\<close> that \<open>requiredInt\<close> returns is another number: by
  \<open>requiredInt_bounded\<close> it is below \<open>2 ^ 63\<close> for every \<open>impl\<close> on 64 bits or
  fewer, and it is the least \<open>int\<close> for the \<open>impl\<close> of amd64.
\<close>

theorem requiredInt_out_of_range:
  "float64_trunc (Fin (2 ^ 70)) = Some 1180591620717411303424 \<and>
   requiredInt indefinite [''number'' \<mapsto> VNumber (Fin (2 ^ 70))] ''number'' =
     (0x8000000000000000, None) \<and>
   sint (fst (requiredInt indefinite [''number'' \<mapsto> VNumber (Fin (2 ^ 70))] ''number'')) \<noteq>
     1180591620717411303424"
  by (simp add: requiredInt_cases int_of_float64_def representable_64 indefinite_def trunc_simps)

text \<open>
  C4, amended. \<open>requiredInt\<close> returns the stored number truncated towards zero whenever
  \<open>int\<close> can represent the truncated number: 5.0 gives 5, 5.9 gives 5 and -5.9 gives -5.
  A number equal to zero gives a missing-parameter error, and a value that is not a
  number gives a type error.
\<close>

theorem requiredInt_truncates:
  "(args p = Some (VNumber v) \<and> \<not> float64_eq v (Fin 0) \<and> float64_trunc v = Some i \<and>
      representable TYPE('w::len) i \<longrightarrow>
      requiredInt impl args p = (word_of_int i :: 'w word, None) \<and>
      sint (word_of_int i :: 'w word) = i) \<and>
   (args p = Some (VNumber v) \<and> float64_eq v (Fin 0) \<longrightarrow>
      requiredInt impl args p = (0, Some (MissingRequired p))) \<and>
   (args p = Some x \<and> assert_float64 x = None \<longrightarrow>
      requiredInt impl args p = (0, Some (NotOfType p ''float64''))) \<and>
   kind (MissingRequired p) = MissingParameter \<and>
   kind (NotOfType p ''float64'') = TypeMismatch \<and>
   requiredInt impl64 [''number'' \<mapsto> VNumber (Fin 5)] ''number'' = (5 :: 64 word, None) \<and>
   requiredInt impl64 [''number'' \<mapsto> VNumber (Fin (59 / 10))] ''number'' =
     (5 :: 64 word, None) \<and>
   requiredInt impl64 [''number'' \<mapsto> VNumber (Fin (- (59 / 10)))] ''number'' =
     (- 5 :: 64 word, None) \<and>
   requiredInt impl64 [''number'' \<mapsto> VNumber (Fin 0)] ''number'' =
     (0 :: 64 word, Some (MissingRequired ''number''))"
  by (auto simp: requiredInt_cases int_of_float64_def sint_representable representable_64
      trunc_simps split: dyn_value.split)

theorem requiredInt_truncates_witness:
  "requiredInt indefinite [''number'' \<mapsto> VNumber (Fin (7 / 2))] ''number'' = (3, None) \<and>
   sint (3 :: 64 word) = 3 \<and>
   requiredInt indefinite [''number'' \<mapsto> VNumber NegZero] ''number'' =
     (0, Some (MissingRequired ''number'')) \<and>
   requiredInt indefinite [''number'' \<mapsto> VString ''7''] ''number'' =
     (0, Some (NotOfType ''number'' ''float64''))"
  using requiredInt_truncates [of "[''number'' \<mapsto> VNumber (Fin (7 / 2))]" "''number''"
      "Fin (7 / 2)" 3 indefinite "VNumber (Fin (7 / 2))" indefinite]
    requiredInt_truncates [of "[''number'' \<mapsto> VNumber NegZero]" "''number''"
      NegZero 0 indefinite "VNumber NegZero" indefinite]
    requiredInt_truncates [of "[''number'' \<mapsto> VString ''7'']" "''number''"
      NegZero 0 indefinite "VString ''7''" indefinite]
  by (simp add: representable_64 trunc_simps)

text \<open>
  C5, as stated, fails: a present number other than zero is not always returned
  truncated. The number 0.5 is not zero and its truncation is 0, but
  \<open>optionalIntParamWithDefault\<close> returns the default 10.
\<close>

theorem optionalIntParamWithDefault_fraction:
  "\<not> float64_eq (Fin (1 / 2)) (Fin 0) \<and>
   float64_trunc (Fin (1 / 2)) = Some 0 \<and>
   optionalIntParamWithDefault indefinite [''page'' \<mapsto> VNumber (Fin (1 / 2))] ''page'' 10 =
     (10, None) \<and>
   sint (fst (optionalIntParamWithDefault indefinite [''page'' \<mapsto> VNumber (Fin (1 / 2))]
     ''page'' 10)) \<noteq> 0"
  by (simp add: optionalIntParamWithDefault_def optionalIntParam_cases int_of_float64_zero
      trunc_simps)

text \<open>
  C5, amended. \<open>optionalIntParamWithDefault\<close> returns the default when the name is
  absent and when the name is present with a number whose truncation is 0 (the number
  0 among them); a present number whose truncation is not 0 and is representable in
  \<open>int\<close> is returned truncated; a present value that is not a number gives a type
  error.
\<close>

theorem optionalIntParamWithDefault_cases:
  "(args p = None \<longrightarrow> optionalIntParamWithDefault impl args p d = (d, None)) \<and>
   (args p = Some (VNumber v) \<and> float64_trunc v = Some 0 \<longrightarrow>
      optionalIntParamWithDefault impl args p d = (d, None)) \<and>
   (args p = Some (VNumber v) \<and> float64_trunc v = Some i \<and> i \<noteq> 0 \<and>
      representable TYPE('w::len) i \<longrightarrow>
      optionalIntParamWithDefault impl args p d = (word_of_int i :: 'w word, None) \<and>
      sint (word_of_int i :: 'w word) = i) \<and>
   (args p = Some x \<and> assert_float64 x = None \<longrightarrow>
      optionalIntParamWithDefault impl args p d =
        (0, Some (NotOfTypeIs p ''float64'' (type_of x))) \<and>
      kind (NotOfTypeIs p ''float64'' (type_of x)) = TypeMismatch)"
  by (auto simp: optionalIntParamWithDefault_def optionalIntParam_cases int_of_float64_zero
      int_of_float64_representable sint_representable word_of_int_representable_0
      trunc_simps split: dyn_value.split)

theorem optionalIntParamWithDefault_cases_witness:
  "optionalIntParamWithDefault indefinite Map.empty ''page'' 10 = (10, None) \<and>
   optionalIntParamWithDefault indefinite [''page'' \<mapsto> VNumber (Fin 0)] ''page'' 10 =
     (10, None) \<and>
   optionalIntParamWithDefault indefinite [''page'' \<mapsto> VNumber (Fin (5 / 2))] ''page'' 10 =
     (2, None) \<and>
   optionalIntParamWithDefault indefinite [''page'' \<mapsto> VString ''2''] ''page'' 10 =
     (0, Some (NotOfTypeIs ''page'' ''float64'' ''string''))"
  using optionalIntParamWithDefault_cases [of Map.empty "''page''" indefinite 10
      "Fin 0" 0 "VNumber (Fin 0)"]
    optionalIntParamWithDefault_cases [of "[''page'' \<mapsto> VNumber (Fin 0)]" "''page''"
      indefinite 10 "Fin 0" 0 "VNumber (Fin 0)"]
    optionalIntParamWithDefault_cases [of "[''page'' \<mapsto> VNumber (Fin (5 / 2))]" "''page''"
      indefinite 10 "Fin (5 / 2)" 2 "VNumber (Fin (5 / 2))"]
    optionalIntParamWithDefault_cases [of "[''page'' \<mapsto> VString ''2'']" "''page''"
      indefinite 10 "Fin 0" 0 "VString ''2''"]
  by (simp add: representable_64 trunc_simps)

text \<open>
  C6. \<open>optionalStringArrayParam\<close> returns the empty sequence when the name is absent
  and the stored sequence when it is a \<open>[]string\<close>. For a \<open>[]interface{}\<close> whose
  elements are all strings it returns these strings; when an element is not a string the
  call fails with a type error that names the type of the first such element, and the
  sequence returned with the error is empty: the strings already copied are dropped.
\<close>

theorem optionalStringArrayParam_all_or_nothing:
  "(args p = None \<longrightarrow> optionalStringArrayParam args p = ([], None)) \<and>
   (args p = Some (VStrings xs) \<longrightarrow> optionalStringArrayParam args p = (xs, None)) \<and>
   (args p = Some (VArray (map VString xs)) \<longrightarrow>
      optionalStringArrayParam args p = (xs, None)) \<and>
   (args p = Some (VArray vs) \<and> find (\<lambda>v. assert_string v = None) vs = Some v \<longrightarrow>
      optionalStringArrayParam args p = ([], Some (ElementNotString p (type_of v))) \<and>
      kind (ElementNotString p (type_of v)) = TypeMismatch) \<and>
   (args p = Some (VArray vs) \<and> v \<in> set vs \<and> assert_string v = None \<longrightarrow>
      fst (optionalStringArrayParam args p) = [] \<and>
      (\<exists>e. snd (optionalStringArrayParam args p) = Some e \<and> kind e = TypeMismatch)) \<and>
   optionalStringArrayParam [''labels'' \<mapsto> VStrings [''a'', ''b'']] ''labels'' =
     ([''a'', ''b''], None) \<and>
   optionalStringArrayParam [''labels'' \<mapsto> VArray [VString ''a'', VString ''b'']] ''labels'' =
     ([''a'', ''b''], None) \<and>
   optionalStringArrayParam [''labels'' \<mapsto> VArray [VNumber (Fin 1), VString ''b'']] ''labels'' =
     ([], Some (ElementNotString ''labels'' ''float64'')) \<and>
   optionalStringArrayParam [''labels'' \<mapsto> VArray [VString ''a'', VNumber (Fin 1)]] ''labels'' =
     ([], Some (ElementNotString ''labels'' ''float64'')) \<and>
   optionalStringArrayParam Map.empty ''labels'' = ([], None)"
proof -
  have strings: "optionalStringArrayParam args p = (xs, None)"
    if "args p = Some (VArray (map VString xs))" for xs
    using that by (simp add: optionalStringArrayParam_def string_elements_strings)
  have other: "optionalStringArrayParam args p = ([], Some (ElementNotString p (type_of v)))"
    if "args p = Some (VArray vs)" "find (\<lambda>v. assert_string v = None) vs = Some v" for vs v
    using that by (simp add: optionalStringArrayParam_def string_elements_first_other)
  have any: "fst (optionalStringArrayParam args p) = [] \<and>
      (\<exists>e. snd (optionalStringArrayParam args p) = Some e \<and> kind e = TypeMismatch)"
    if "args p = Some (VArray vs)" "v \<in> set vs" "assert_string v = None" for vs v
  proof -
    from that obtain u where "find (\<lambda>v. assert_string v = None) vs = Some u"
      using find_other by blast
    with that(1) show ?thesis by (simp add: other)
  qed
  have plain: "(args p = None \<longrightarrow> optionalStringArrayParam args p = ([], None)) \<and>
      (args p = Some (VStrings xs) \<longrightarrow> optionalStringArrayParam args p = (xs, None))"
    by (simp add: optionalStringArrayParam_def)
  have examples:
    "optionalStringArrayParam [''labels'' \<mapsto> VStrings [''a'', ''b'']] ''labels'' =
       ([''a'', ''b''], None) \<and>
     optionalStringArrayParam [''labels'' \<mapsto> VArray [VString ''a'', VString ''b'']] ''labels'' =
       ([''a'', ''b''], None) \<and>
     optionalStringArrayParam [''labels'' \<mapsto> VArray [VNumber (Fin 1), VString ''b'']] ''labels'' =
       ([], Some (ElementNotString ''labels'' ''float64'')) \<and>
     optionalStringArrayParam [''labels'' \<mapsto> VArray [VString ''a'', VNumber (Fin 1)]] ''labels'' =
       ([], Some (ElementNotString ''labels'' ''float64'')) \<and>
     optionalStringArrayParam Map.empty ''labels'' = ([], None)"
    by (simp add: optionalStringArrayParam_def)
  have mismatch: "kind (ElementNotString p (type_of v)) = TypeMismatch"
    by simp
  from plain examples mismatch strings [of xs] other [of vs v] any [of vs v]
  show ?thesis by blast
qed

theorem optionalStringArrayParam_all_or_nothing_witness:
  "optionalStringArrayParam [''files'' \<mapsto> VArray [VString ''a.go'', VBool True, VString ''b.go'']]
     ''files'' = ([], Some (ElementNotString ''files'' ''bool'')) \<and>
   optionalStringArrayParam [''files'' \<mapsto> VArray [VString ''a.go'', VString ''b.go'']] ''files'' =
     ([''a.go'', ''b.go''], None) \<and>
   optionalStringArrayParam [''files'' \<mapsto> VStrings [''a.go'']] ''files'' = ([''a.go''], None) \<and>
   optionalStringArrayParam [''files'' \<mapsto> VStrings [''a.go'']] ''labels'' = ([], None)"
  using optionalStringArrayParam_all_or_nothing
      [of "[''files'' \<mapsto> VArray [VString ''a.go'', VBool True, VString ''b.go'']]" "''files''"
        "[]" "[VString ''a.go'', VBool True, VString ''b.go'']" "VBool True"]
    optionalStringArrayParam_all_or_nothing
      [of "[''files'' \<mapsto> VArray [VString ''a.go'', VString ''b.go'']]" "''files''"
        "[''a.go'', ''b.go'']" "[]" VNil]
    optionalStringArrayParam_all_or_nothing
      [of "[''files'' \<mapsto> VStrings [''a.go'']]" "''files''" "[''a.go'']" "[]" VNil]
    optionalStringArrayParam_all_or_nothing
      [of "[''files'' \<mapsto> VStrings [''a.go'']]" "''labels''" "[''a.go'']" "[]" VNil]
  by simp

text \<open>
  C7. \<open>optionalParam\<close> returns the zero value of \<open>T\<close> and no error when the name is
  absent, fails with a type error when the value is not of type \<open>T\<close>, and returns a
  value of type \<open>T\<close> as it is, also when it is the zero value: the empty string, the
  number zero and \<open>false\<close> are returned with no error.
\<close>

theorem optionalParam_checks:
  "(args p = None \<longrightarrow> optionalParam T args p = (zero_value T, None)) \<and>
   (args p = Some x \<and> type_assert T x = None \<longrightarrow>
      optionalParam T args p = (zero_value T, Some (NotOfTypeIs p (type_name T) (type_of x))) \<and>
      kind (NotOfTypeIs p (type_name T) (type_of x)) = TypeMismatch) \<and>
   (args p = Some x \<and> type_assert T x = Some v \<longrightarrow> optionalParam T args p = (v, None)) \<and>
   (args p = Some (VString []) \<longrightarrow> optionalParam string_type args p = ([], None)) \<and>
   (args p = Some (VNumber (Fin 0)) \<longrightarrow> optionalParam float64_type args p = (Fin 0, None)) \<and>
   (args p = Some (VBool False) \<longrightarrow> optionalParam bool_type args p = (False, None))"
  by (simp add: optionalParam_def string_type_def float64_type_def bool_type_def)

theorem optionalParam_checks_witness:
  "optionalParam string_type Map.empty ''sort'' = ('''', None) \<and>
   optionalParam string_type [''sort'' \<mapsto> VBool True] ''sort'' =
     ('''', Some (NotOfTypeIs ''sort'' ''string'' ''bool'')) \<and>
   optionalParam string_type [''sort'' \<mapsto> VString ''''] ''sort'' = ('''', None) \<and>
   optionalParam float64_type [''page'' \<mapsto> VNumber (Fin 0)] ''page'' = (Fin 0, None) \<and>
   optionalParam bool_type [''draft'' \<mapsto> VBool False] ''draft'' = (False, None)"
  using optionalParam_checks [of Map.empty "''sort''" string_type]
    optionalParam_checks [of "[''sort'' \<mapsto> VBool True]" "''sort''" string_type "VBool True"]
    optionalParam_checks [of "[''sort'' \<mapsto> VString '''']" "''sort''" string_type
      "VString ''''" "''''"]
    optionalParam_checks [of "[''page'' \<mapsto> VNumber (Fin 0)]" "''page''" string_type
      "VNumber (Fin 0)"]
    optionalParam_checks [of "[''draft'' \<mapsto> VBool False]" "''draft''" string_type
      "VBool False"]
  by (simp add: string_type_def)

text \<open>
  C8. The catalog is the declared sequence of tools without the tools that fail a gate:
  the tools that remain keep their declared order, none occurs twice, and the catalog
  depends on the configuration only through the flag and the two sets of names, so that
  two builds from the same configuration give the same catalog, in membership and in
  order.
\<close>

theorem catalog_in_declared_order:
  "tools (NewServer name readOnly excludeTools includeTools) =
     filter (\<lambda>t. (mutating t \<longrightarrow> \<not> readOnly) \<and>
                shouldIncludeTool (tool_list includeTools) (tool_list excludeTools) (name t))
       declared \<and>
   subseq (tools (NewServer name readOnly excludeTools includeTools)) declared \<and>
   distinct (tools (NewServer name readOnly excludeTools includeTools)) \<and>
   (dom (tool_list excludeTools') = dom (tool_list excludeTools) \<and>
    dom (tool_list includeTools') = dom (tool_list includeTools) \<longrightarrow>
      tools (NewServer name readOnly excludeTools' includeTools') =
        tools (NewServer name readOnly excludeTools includeTools))"
  by (simp add: tools_NewServer shouldIncludeTool_dom distinct_declared)

theorem catalog_in_declared_order_witness:
  "dom (tool_list ''get_me,search_code'') = dom (tool_list '' search_code , get_me'') \<and>
   dom (tool_list '''') = dom (tool_list '''') \<and>
   tools (NewServer tool_name True ''get_me,search_code'' '''') =
     tools (NewServer tool_name True '' search_code , get_me'' '''') \<and>
   tools (NewServer tool_name True ''get_me,search_code'' '''') =
     [GetIssue, SearchIssues, ListIssues,
      GetPullRequest, ListPullRequests, GetPullRequestFiles, GetPullRequestStatus,
      GetPullRequestComments, GetPullRequestReviews,
      SearchRepositories, GetFileContents, ListCommits,
      SearchUsers, GetCodeScanningAlert, ListCodeScanningAlerts]"
  using catalog_in_declared_order
      [of tool_name True "''get_me,search_code''" "''''" "'' search_code , get_me''" "''''"]
  by (simp add: dom_tool_list TrimSpace_def white_space_def insert_commute shouldIncludeTool_dom
      declared_def mutating_def)

text \<open>
  C9. When the parameter is present with a number whose truncation towards zero is 0
  (0.9, -0.5 and the negative zero as well as 0), \<open>optionalIntParam\<close> returns 0, since
  it converts before any check, and \<open>optionalIntParamWithDefault\<close> then returns the
  default.
\<close>

theorem optionalIntParamWithDefault_truncates_first:
  "(args p = Some (VNumber v) \<and> float64_trunc v = Some 0 \<longrightarrow>
      optionalIntParam impl args p = (0, None) \<and>
      optionalIntParamWithDefault impl args p d = (d, None)) \<and>
   optionalIntParamWithDefault impl [''page'' \<mapsto> VNumber (Fin (9 / 10))] ''page'' d =
     (d, None) \<and>
   optionalIntParamWithDefault impl [''page'' \<mapsto> VNumber (Fin (- (1 / 2)))] ''page'' d =
     (d, None) \<and>
   optionalIntParamWithDefault impl [''page'' \<mapsto> VNumber NegZero] ''page'' d = (d, None)"
  by (simp add: optionalIntParamWithDefault_def optionalIntParam_cases int_of_float64_zero
      trunc_simps)

theorem optionalIntParamWithDefault_truncates_first_witness:
  "float64_trunc (Fin (3 / 4)) = Some 0 \<and>
   optionalIntParam indefinite [''perPage'' \<mapsto> VNumber (Fin (3 / 4))] ''perPage'' = (0, None) \<and>
   optionalIntParamWithDefault indefinite [''perPage'' \<mapsto> VNumber (Fin (3 / 4))] ''perPage'' 30 =
     (30, None)"
  using optionalIntParamWithDefault_truncates_first
    [of "[''perPage'' \<mapsto> VNumber (Fin (3 / 4))]" "''perPage''" "Fin (3 / 4)" indefinite 30]
  by (simp add: trunc_simps)

text \<open>
  C10. When the parameter is present and is neither a \<open>[]string\<close> nor a
  \<open>[]interface{}\<close> (a string, a number, a boolean), \<open>optionalStringArrayParam\<close> fails
  with the type error "could not be coerced to []string" and returns the empty sequence
  with it.
\<close>

theorem optionalStringArrayParam_not_coercible:
  "(args p = Some x \<and> (\<forall>v. x \<noteq> VStrings v) \<and> (\<forall>v. x \<noteq> VArray v) \<longrightarrow>
      optionalStringArrayParam args p = ([], Some (NotCoercible p (type_of x))) \<and>
      kind (NotCoercible p (type_of x)) = TypeMismatch \<and>
      message (NotCoercible p (type_of x)) =
        ''parameter '' @ p @ '' could not be coerced to []string, is '' @ type_of x) \<and>
   optionalStringArrayParam [''labels'' \<mapsto> VString ''bug''] ''labels'' =
     ([], Some (NotCoercible ''labels'' ''string'')) \<and>
   optionalStringArrayParam [''labels'' \<mapsto> VNumber (Fin 1)] ''labels'' =
     ([], Some (NotCoercible ''labels'' ''float64'')) \<and>
   optionalStringArrayParam [''labels'' \<mapsto> VBool True] ''labels'' =
     ([], Some (NotCoercible ''labels'' ''bool''))"
  by (cases x) (simp_all add: optionalStringArrayParam_def)

theorem optionalStringArrayParam_not_coercible_witness:
  "optionalStringArrayParam [''labels'' \<mapsto> VNil] ''labels'' =
     ([], Some (NotCoercible ''labels'' ''<nil>'')) \<and>
   message (NotCoercible ''labels'' ''<nil>'') =
     ''parameter labels could not be coerced to []string, is <nil>''"
  using optionalStringArrayParam_not_coercible [of "[''labels'' \<mapsto> VNil]" "''labels''" VNil]
  by simp

end
